theory Spec2Isabelle
  imports Main
begin

section \<open>JavaScript numbers\<close>

text \<open>
  Every quantity, price and total of the program has the TypeScript type \<open>number\<close>: an
  IEEE-754 double. The prices of the domain (a currency without subunits) and the
  quantities of the user interface are whole numbers, so the model keeps the
  integer-valued doubles, \<open>Num n\<close>, and the three values that arithmetic on them can
  leave the integers for. The two zeros of IEEE-754 are one value \<open>Num 0\<close>: no
  comparison or sum of the program tells them apart.

  A sum or product of two integer-valued doubles is the exact integer result rounded to
  the nearest double, ties to the even significand (53 bits); a result of magnitude
  \<open>2 ^ 1024\<close> or more is an infinity.
\<close>

datatype number = Num int | PosInf | NegInf | NaN

text \<open>The exponent of the last place: how many low bits a magnitude loses in 53 bits.\<close>

function ulp_exp :: "int \<Rightarrow> nat" where
  "ulp_exp a = (if a < 2 ^ 53 then 0 else Suc (ulp_exp (a div 2)))"
  by pat_completeness auto
termination
  by (relation "measure nat") auto

declare ulp_exp.simps [simp del]

text \<open>A magnitude rounded to 53 significant bits, ties to the even significand.\<close>

definition round_magnitude :: "int \<Rightarrow> int" where
  "round_magnitude a =
     (let e = ulp_exp a;
          q = a div 2 ^ e;
          r = a mod 2 ^ e
      in if 2 * r > 2 ^ e \<or> (2 * r = 2 ^ e \<and> odd q) then (q + 1) * 2 ^ e else q * 2 ^ e)"

definition js_round :: "int \<Rightarrow> number" where
  "js_round n =
     (if \<bar>n\<bar> \<le> 2 ^ 53 then Num n
      else let m = round_magnitude \<bar>n\<bar>
           in if m \<ge> 2 ^ 1024 then (if n < 0 then NegInf else PosInf)
              else Num (if n < 0 then - m else m))"

fun js_add :: "number \<Rightarrow> number \<Rightarrow> number" where
  "js_add NaN _ = NaN"
| "js_add _ NaN = NaN"
| "js_add PosInf NegInf = NaN"
| "js_add NegInf PosInf = NaN"
| "js_add PosInf _ = PosInf"
| "js_add _ PosInf = PosInf"
| "js_add NegInf _ = NegInf"
| "js_add _ NegInf = NegInf"
| "js_add (Num a) (Num b) = js_round (a + b)"

fun js_neg :: "number \<Rightarrow> number" where
  "js_neg (Num a) = Num (- a)"
| "js_neg PosInf = NegInf"
| "js_neg NegInf = PosInf"
| "js_neg NaN = NaN"

fun js_mul :: "number \<Rightarrow> number \<Rightarrow> number" where
  "js_mul NaN _ = NaN"
| "js_mul _ NaN = NaN"
| "js_mul (Num a) (Num b) = js_round (a * b)"
| "js_mul (Num a) y = (if a = 0 then NaN else if a < 0 then js_neg y else y)"
| "js_mul x (Num b) = (if b = 0 then NaN else if b < 0 then js_neg x else x)"
| "js_mul x y = (if x = y then PosInf else NegInf)"

text \<open>\<open>x <= y\<close>: every comparison with \<open>NaN\<close> is false.\<close>

fun js_le :: "number \<Rightarrow> number \<Rightarrow> bool" where
  "js_le NaN _ = False"
| "js_le _ NaN = False"
| "js_le NegInf _ = True"
| "js_le _ PosInf = True"
| "js_le _ NegInf = False"
| "js_le PosInf _ = False"
| "js_le (Num a) (Num b) = (a \<le> b)"

section \<open>Data model (types/api.ts)\<close>

datatype OrderStatus = Pending | Accepted | Rejected | Preparing | Ready | Completed

datatype PaymentMethod = Cash | Pos | Transfer

datatype PaymentStatus = PaymentPending | PaymentCompleted | PaymentFailed

record Table =
  table_id :: string
  tableNumber :: string
  tableName :: string
  capacity :: number
  location :: string
  qrCodeUrl :: "string option"
  qrCodeData :: "string option"
  orderWebsiteUrl :: "string option"
  table_isActive :: "bool option"
  table_createdAt :: "string option"
  table_updatedAt :: "string option"

record MenuItem =
  item_id :: string
  item_name :: string
  item_description :: string
  price :: number
  imageUrl :: string
  isAvailable :: bool
  preparationTime :: number
  categoryId :: string

record OrderItemMenu =
  oim_id :: string
  oim_name :: string
  oim_description :: "string option"
  oim_price :: number
  oim_imageUrl :: "string option"

record OrderItem =
  oi_id :: string
  menuItemId :: string
  oi_menuItem :: "OrderItemMenu option"
  oi_quantity :: number
  oi_price :: number
  subtotal :: number
  oi_specialInstructions :: "string option"

record OrderTable =
  ot_id :: string
  ot_tableNumber :: string
  ot_location :: string

record Order =
  order_id :: string
  orderNumber :: string
  tableId :: string
  order_table :: "OrderTable option"
  status :: OrderStatus
  totalAmount :: number
  order_paymentMethod :: string
  paymentStatus :: PaymentStatus
  order_specialInstructions :: "string option"
  items :: "OrderItem list"
  order_createdAt :: string
  order_updatedAt :: string

record CreateOrderItem =
  req_menuItemId :: string
  req_quantity :: number
  req_itemInstructions :: "string option"

record CreateOrderRequest =
  req_tableId :: string
  req_items :: "CreateOrderItem list"
  req_paymentMethod :: PaymentMethod
  req_specialInstructions :: "string option"

record PaymentMethodInfo =
  pm_id :: string
  pm_type :: PaymentMethod
  pm_name :: string
  pm_isActive :: bool
  bankName :: "string option"
  accountNumber :: "string option"
  accountName :: "string option"
  pm_createdAt :: string

record Payment =
  payment_id :: string
  payment_orderId :: string
  payment_method :: string
  payment_status :: PaymentStatus
  amount :: number
  receiptImageUrl :: "string option"
  payment_createdAt :: string
  payment_updatedAt :: string

record InitiatePaymentRequest =
  ip_orderId :: string
  ip_paymentMethod :: PaymentMethod

record UploadReceiptRequest =
  ur_paymentId :: string
  ur_receiptUrl :: string

section \<open>The cart of the order context (OrderContext)\<close>

record CartItem =
  menuItem :: MenuItem
  quantity :: number
  specialInstructions :: "string option"

type_synonym cart = "CartItem list"

text \<open>
  The state setters are called with an updater \<open>prev => ...\<close>; each operation is a
  function from the previous cart to the next. The parameter \<open>quantity: number = 1\<close> of
  \<open>addToCart\<close> is an optional argument: \<open>None\<close> is the call that leaves it out.
\<close>

definition addToCart :: "MenuItem \<Rightarrow> number option \<Rightarrow> cart \<Rightarrow> cart" where
  "addToCart item q prev =
     (let qty = (case q of None \<Rightarrow> Num 1 | Some v \<Rightarrow> v) in
      case find (\<lambda>ci. item_id (menuItem ci) = item_id item) prev of
        Some existing \<Rightarrow>
          map (\<lambda>ci. if item_id (menuItem ci) = item_id item
                     then ci\<lparr>quantity := js_add (quantity ci) qty\<rparr>
                     else ci) prev
      | None \<Rightarrow> prev @ [\<lparr>menuItem = item, quantity = qty, specialInstructions = None\<rparr>])"

definition removeFromCart :: "string \<Rightarrow> cart \<Rightarrow> cart" where
  "removeFromCart itemId prev = filter (\<lambda>ci. item_id (menuItem ci) \<noteq> itemId) prev"

definition updateCartItemQuantity :: "string \<Rightarrow> number \<Rightarrow> cart \<Rightarrow> cart" where
  "updateCartItemQuantity itemId qty prev =
     (if js_le qty (Num 0) then removeFromCart itemId prev
      else map (\<lambda>ci. if item_id (menuItem ci) = itemId then ci\<lparr>quantity := qty\<rparr> else ci) prev)"

definition updateCartItemInstructions :: "string \<Rightarrow> string \<Rightarrow> cart \<Rightarrow> cart" where
  "updateCartItemInstructions itemId instructions prev =
     map (\<lambda>ci. if item_id (menuItem ci) = itemId
                then ci\<lparr>specialInstructions := Some instructions\<rparr>
                else ci) prev"

definition clearCart :: "cart \<Rightarrow> cart" where
  "clearCart prev = []"

text \<open>\<open>cartItems.reduce((total, item) => total + item.menuItem.price * item.quantity, 0)\<close>\<close>

definition getCartTotal :: "cart \<Rightarrow> number" where
  "getCartTotal cartItems =
     foldl (\<lambda>total item. js_add total (js_mul (price (menuItem item)) (quantity item)))
       (Num 0) cartItems"


text \<open>
  Sequences of the three cart operations of the user interface, applied in order.
\<close>

datatype cart_op = Add MenuItem "number option" | SetQuantity string number | Remove string

fun apply_op :: "cart_op \<Rightarrow> cart \<Rightarrow> cart" where
  "apply_op (Add item q) c = addToCart item q c"
| "apply_op (SetQuantity itemId q) c = updateCartItemQuantity itemId q c"
| "apply_op (Remove itemId) c = removeFromCart itemId c"

definition run_ops :: "cart_op list \<Rightarrow> cart \<Rightarrow> cart" where
  "run_ops ops c = foldl (\<lambda>c op. apply_op op c) c ops"

text \<open>The menu item ids of the lines of a cart, in the order of the lines.\<close>

definition line_ids :: "cart \<Rightarrow> string list" where
  "line_ids c = map (\<lambda>ci. item_id (menuItem ci)) c"

text \<open>
  Reading a \<open>number\<close> as the integer it holds, and the total of a cart in exact integer
  arithmetic: the sum over the lines of unit price times quantity, as the specification
  words it. These two are the yardstick the program's totals are compared with.
\<close>

fun is_int :: "number \<Rightarrow> bool" where
  "is_int (Num n) = True"
| "is_int _ = False"

fun int_of :: "number \<Rightarrow> int" where
  "int_of (Num n) = n"
| "int_of _ = 0"

definition exact_total :: "cart \<Rightarrow> int" where
  "exact_total c = sum_list (map (\<lambda>ci. int_of (price (menuItem ci)) * int_of (quantity ci)) c)"


text \<open>
  A cart is in the exact range when its prices and quantities are integers and the
  magnitudes of its line totals add up to at most \<open>2 ^ 53\<close>; likewise for the quantities
  alone.
\<close>

definition safe_cart :: "cart \<Rightarrow> bool" where
  "safe_cart c =
     (list_all (\<lambda>ci. is_int (price (menuItem ci)) \<and> is_int (quantity ci)) c \<and>
      sum_list (map (\<lambda>ci. \<bar>int_of (price (menuItem ci)) * int_of (quantity ci)\<bar>) c) \<le> 2 ^ 53)"


section \<open>The collaborator (services/api.ts) and the effects of the pages\<close>

text \<open>
  What a handler can catch: the \<open>ApiError\<close> that \<open>fetchApi\<close> throws on a response that
  is not ok (status code, message, error label), the \<open>TypeError\<close> of the runtime (a
  failed fetch, a property read on \<open>null\<close>), or any other error. The handlers read the
  message only.
\<close>

datatype js_error =
    ApiError number string "string option"
  | TypeError string
  | OtherError string

fun err_message :: "js_error \<Rightarrow> string" where
  "err_message (ApiError statusCode message label) = message"
| "err_message (TypeError message) = message"
| "err_message (OtherError message) = message"

text \<open>\<open>err.message || fallback\<close>: the empty string is falsy.\<close>

definition message_or :: "js_error \<Rightarrow> string \<Rightarrow> string" where
  "message_or err fallback = (if err_message err = [] then fallback else err_message err)"

text \<open>
  The message of the \<open>TypeError\<close> that reading \<open>id\<close> of \<open>null\<close> throws, with the
  apostrophes (code unit 39) around the property name. Its wording is the engine's, here
  V8's; it is never empty.
\<close>

definition null_read_message :: string where
  "null_read_message =
     ''Cannot read properties of null (reading '' @ [CHR 0x27] @ ''id'' @ [CHR 0x27] @ '')''"

text \<open>
  The collaborator is the REST service behind \<open>api\<close>. A handler makes each of its calls at
  most once, so the collaborator is given by the answer it has for each request: \<open>Inl\<close>
  the error thrown, \<open>Inr\<close> the value the promise resolves to. A handler is one step, from
  its guard to the end of its \<open>finally\<close> block: the pages disable the button of a handler
  while its request is in flight.
\<close>

record collaborator =
  getPaymentMethods :: "js_error + PaymentMethodInfo list"
  createOrder :: "CreateOrderRequest \<Rightarrow> js_error + Order"
  getOrderById :: "string \<Rightarrow> js_error + Order"
  initiatePayment :: "InitiatePaymentRequest \<Rightarrow> js_error + Payment"
  uploadTransferReceipt :: "UploadReceiptRequest \<Rightarrow> js_error + Payment"

text \<open>
  The effects a page has outside its own state, in the order they happen: the calls to
  the collaborator, the calls of \<open>clearCart\<close>, and the navigations with the \<open>orderId\<close> of
  their \<open>state\<close>.
\<close>

datatype effect =
    Call_getPaymentMethods
  | Call_createOrder CreateOrderRequest
  | Call_getOrderById string
  | Call_initiatePayment InitiatePaymentRequest
  | Call_uploadTransferReceipt UploadReceiptRequest
  | ClearCart
  | Navigate string "string option"

text \<open>The five slots of the order context, and the context together with the effects so far.\<close>

record session =
  table :: "Table option"
  cartItems :: cart
  currentOrder :: "Order option"
  paymentMethods :: "PaymentMethodInfo list"
  selectedPaymentMethod :: "PaymentMethodInfo option"

record world = session +
  trace :: "effect list"

text \<open>Truthiness of a string that may be \<open>undefined\<close> or \<open>null\<close>.\<close>

definition truthy :: "string option \<Rightarrow> bool" where
  "truthy v = (case v of None \<Rightarrow> False | Some s \<Rightarrow> s \<noteq> [])"

text \<open>\<open>location.state?.orderId || currentOrder?.id\<close>\<close>

definition orderId_of :: "string option \<Rightarrow> Order option \<Rightarrow> string option" where
  "orderId_of location_orderId cur =
     (if truthy location_orderId then location_orderId else map_option order_id cur)"

section \<open>The cart page (Cart): order submission\<close>

record cart_page = world +
  cart_loading :: bool
  cart_error :: "string option"
  cart_specialInstructions :: string

text \<open>The argument of \<open>api.createOrder\<close>, once \<open>table!.id\<close> has been read.\<close>

definition checkoutRequest ::
  "Table \<Rightarrow> cart \<Rightarrow> PaymentMethod \<Rightarrow> string \<Rightarrow> CreateOrderRequest" where
  "checkoutRequest t cart defaultMethod instructions =
     \<lparr>req_tableId = table_id t,
      req_items = map (\<lambda>item. \<lparr>req_menuItemId = item_id (menuItem item),
                                  req_quantity = quantity item,
                                  req_itemInstructions = specialInstructions item\<rparr>) cart,
      req_paymentMethod = defaultMethod,
      req_specialInstructions = (if instructions = [] then None else Some instructions)\<rparr>"

text \<open>\<open>activeMethods[0]?.type || 'cash'\<close>\<close>

definition defaultMethod :: "PaymentMethodInfo list \<Rightarrow> PaymentMethod" where
  "defaultMethod methods =
     (case filter pm_isActive methods of [] \<Rightarrow> Cash | m # rest \<Rightarrow> pm_type m)"

text \<open>
  The \<open>catch\<close> and \<open>finally\<close> blocks of \<open>handleCheckout\<close>: the handler never throws; a
  failure is the message left in \<open>error\<close>.
\<close>

definition checkout_failed :: "js_error \<Rightarrow> cart_page \<Rightarrow> cart_page" where
  "checkout_failed err s =
     s\<lparr>cart_error := Some (message_or err ''Failed to create order''), cart_loading := False\<rparr>"

definition handleCheckout :: "collaborator \<Rightarrow> cart_page \<Rightarrow> cart_page" where
  "handleCheckout api s =
     (if length (cartItems s) = 0 then s
      else
        let s1 = s\<lparr>cart_loading := True, cart_error := None\<rparr>;
            s2 = s1\<lparr>trace := trace s1 @ [Call_getPaymentMethods]\<rparr>
        in case getPaymentMethods api of
             Inl err \<Rightarrow> checkout_failed err s2
           | Inr methods \<Rightarrow>
               (case table s2 of
                  None \<Rightarrow> checkout_failed (TypeError null_read_message) s2
                | Some t \<Rightarrow>
                    let req = checkoutRequest t (cartItems s2) (defaultMethod methods)
                                (cart_specialInstructions s2);
                        s3 = s2\<lparr>trace := trace s2 @ [Call_createOrder req]\<rparr>
                    in case createOrder api req of
                         Inl err \<Rightarrow> checkout_failed err s3
                       | Inr order \<Rightarrow>
                           s3\<lparr>currentOrder := Some order,
                              cartItems := clearCart (cartItems s3),
                              trace := trace s3 @ [ClearCart, Navigate ''/payment'' (Some (order_id order))],
                              cart_loading := False\<rparr>))"

section \<open>The payment page (Payment)\<close>

text \<open>
  A string is the list of its UTF-16 code units, here those below 256. Of these
  \<open>String.prototype.trim\<close> strips TAB, LF, VT, FF, CR, SPACE and the no-break space.
\<close>

definition js_whitespace :: "char \<Rightarrow> bool" where
  "js_whitespace c =
     (c \<in> set [CHR 0x09, CHR 0x0A, CHR 0x0B, CHR 0x0C, CHR 0x0D, CHR 0x20, CHR 0xA0])"

definition trim :: "string \<Rightarrow> string" where
  "trim s = rev (dropWhile js_whitespace (rev (dropWhile js_whitespace s)))"

record payment_page = world +
  location_orderId :: "string option"
  pay_loading :: bool
  pay_error :: "string option"
  paymentInitiated :: bool
  paymentId :: "string option"
  receiptUrl :: string
  uploading :: bool

definition handleInitiatePayment :: "collaborator \<Rightarrow> payment_page \<Rightarrow> payment_page" where
  "handleInitiatePayment api s =
     (case (selectedPaymentMethod s, orderId_of (location_orderId s) (currentOrder s)) of
        (Some method, Some orderId) \<Rightarrow>
          if orderId = [] then s
          else
            let s1 = s\<lparr>pay_loading := True, pay_error := None\<rparr>;
                req = \<lparr>ip_orderId = orderId, ip_paymentMethod = pm_type method\<rparr>;
                s2 = s1\<lparr>trace := trace s1 @ [Call_initiatePayment req]\<rparr>
            in (case initiatePayment api req of
                  Inl err \<Rightarrow>
                    s2\<lparr>pay_error := Some (message_or err ''Failed to initiate payment''),
                       pay_loading := False\<rparr>
                | Inr payment \<Rightarrow>
                    let s3 = s2\<lparr>paymentId := Some (payment_id payment)\<rparr>
                    in if pm_type method = Transfer
                       then s3\<lparr>paymentInitiated := True, pay_loading := False\<rparr>
                       else s3\<lparr>trace := trace s3 @ [Navigate ''/order-status'' (Some orderId)],
                               pay_loading := False\<rparr>)
      | _ \<Rightarrow> s)"

definition handleUploadReceipt :: "collaborator \<Rightarrow> payment_page \<Rightarrow> payment_page" where
  "handleUploadReceipt api s =
     (case paymentId s of
        None \<Rightarrow> s
      | Some pid \<Rightarrow>
          if trim (receiptUrl s) = [] \<or> pid = [] then s
          else
            let s1 = s\<lparr>uploading := True, pay_error := None\<rparr>;
                req = \<lparr>ur_paymentId = pid, ur_receiptUrl = receiptUrl s\<rparr>;
                s2 = s1\<lparr>trace := trace s1 @ [Call_uploadTransferReceipt req]\<rparr>
            in (case uploadTransferReceipt api req of
                  Inl err \<Rightarrow>
                    s2\<lparr>pay_error := Some (message_or err ''Failed to upload receipt''),
                       uploading := False\<rparr>
                | Inr payment \<Rightarrow>
                    s2\<lparr>trace := trace s2 @
                         [Navigate ''/order-status''
                            (orderId_of (location_orderId s2) (currentOrder s2))],
                       uploading := False\<rparr>))"

text \<open>
  The controls of the page. While \<open>paymentInitiated\<close> is false the page renders the
  method buttons and the button of \<open>handleInitiatePayment\<close>; once it is true the page
  renders the receipt input and the button of \<open>handleUploadReceipt\<close> instead. The Back
  button is always there. A control that is not rendered cannot be used.
\<close>

datatype payment_event =
    SelectMethod PaymentMethodInfo
  | ClickProceed collaborator
  | TypeReceipt string
  | ClickUpload collaborator
  | ClickBack

fun payment_step :: "payment_event \<Rightarrow> payment_page \<Rightarrow> payment_page" where
  "payment_step (SelectMethod m) s =
     (if paymentInitiated s then s else s\<lparr>selectedPaymentMethod := Some m\<rparr>)"
| "payment_step (ClickProceed api) s =
     (if paymentInitiated s then s else handleInitiatePayment api s)"
| "payment_step (TypeReceipt text) s =
     (if paymentInitiated s then s\<lparr>receiptUrl := text\<rparr> else s)"
| "payment_step (ClickUpload api) s =
     (if paymentInitiated s then handleUploadReceipt api s else s)"
| "payment_step ClickBack s = s\<lparr>trace := trace s @ [Navigate ''/cart'' None]\<rparr>"

definition payment_run :: "payment_event list \<Rightarrow> payment_page \<Rightarrow> payment_page" where
  "payment_run evs s = foldl (\<lambda>s ev. payment_step ev s) s evs"

text \<open>
  The checkout flow is complete once the page has handed over to the order status page.
\<close>

fun to_order_status :: "effect \<Rightarrow> bool" where
  "to_order_status (Navigate path orderId) = (path = ''/order-status'')"
| "to_order_status _ = False"

definition checkout_complete :: "effect list \<Rightarrow> bool" where
  "checkout_complete tr = list_ex to_order_status tr"

text \<open>
  An event is a receipt upload that succeeds when it is a click on the upload button that
  gets past the guard of \<open>handleUploadReceipt\<close> and whose call the collaborator answers
  with a payment record.
\<close>

fun upload_succeeds :: "payment_event \<Rightarrow> payment_page \<Rightarrow> bool" where
  "upload_succeeds (ClickUpload api) s =
     (paymentInitiated s \<and>
      (case paymentId s of
         None \<Rightarrow> False
       | Some pid \<Rightarrow>
           trim (receiptUrl s) \<noteq> [] \<and> pid \<noteq> [] \<and>
           (case uploadTransferReceipt api \<lparr>ur_paymentId = pid, ur_receiptUrl = receiptUrl s\<rparr> of
              Inl err \<Rightarrow> False | Inr payment \<Rightarrow> True)))"
| "upload_succeeds _ s = False"

fun some_upload_succeeds :: "payment_event list \<Rightarrow> payment_page \<Rightarrow> bool" where
  "some_upload_succeeds [] s = False"
| "some_upload_succeeds (ev # evs) s =
     (upload_succeeds ev s \<or> some_upload_succeeds evs (payment_step ev s))"

section \<open>The order status page (OrderStatus): polling and progress\<close>

text \<open>
  \<open>interval\<close> is the timer of \<open>setInterval\<close>: \<open>None\<close> when no timer is registered,
  \<open>Some orderId\<close> when one is, its callback \<open>loadOrder\<close> closed over that \<open>orderId\<close>.
  The request and the handling of its answer are one step. The repository has two versions
  of the page; they share the effect and \<open>loadOrder\<close>, and the later one adds the flag
  \<open>isPolling\<close> of the live indicator, which \<open>loadOrder\<close> sets and nothing else reads. The
  model follows components/OrderStatus.tsx and leaves the flag out.
\<close>

record status_page = world +
  status_location_orderId :: "string option"
  order :: "Order option"
  status_loading :: bool
  status_error :: "string option"
  interval :: "string option"

definition loadOrder :: "collaborator \<Rightarrow> string \<Rightarrow> status_page \<Rightarrow> status_page" where
  "loadOrder api orderId s =
     (let s1 = s\<lparr>trace := trace s @ [Call_getOrderById orderId]\<rparr>
      in case getOrderById api orderId of
           Inr orderData \<Rightarrow>
             s1\<lparr>order := Some orderData, currentOrder := Some orderData, status_loading := False\<rparr>
         | Inl err \<Rightarrow>
             s1\<lparr>status_error := Some (message_or err ''Failed to load order''),
                status_loading := False\<rparr>)"

text \<open>The effect of \<open>useEffect\<close>, the firing of the timer, and the cleanup of the effect.\<close>

definition status_effect :: "collaborator \<Rightarrow> status_page \<Rightarrow> status_page" where
  "status_effect api s =
     (case orderId_of (status_location_orderId s) (currentOrder s) of
        None \<Rightarrow> s\<lparr>trace := trace s @ [Navigate ''/'' None]\<rparr>
      | Some orderId \<Rightarrow>
          if orderId = [] then s\<lparr>trace := trace s @ [Navigate ''/'' None]\<rparr>
          else (loadOrder api orderId s)\<lparr>interval := Some orderId\<rparr>)"

definition status_tick :: "collaborator \<Rightarrow> status_page \<Rightarrow> status_page" where
  "status_tick api s = (case interval s of None \<Rightarrow> s | Some orderId \<Rightarrow> loadOrder api orderId s)"

definition status_cleanup :: "status_page \<Rightarrow> status_page" where
  "status_cleanup s = s\<lparr>interval := None\<rparr>"

definition status_ticks :: "collaborator list \<Rightarrow> status_page \<Rightarrow> status_page" where
  "status_ticks apis s = foldl (\<lambda>s api. status_tick api s) s apis"

text \<open>
  \<open>isProcessing\<close> of the page, and the terminal statuses of the specification: \<open>ready\<close>,
  \<open>completed\<close> and \<open>rejected\<close>, the statuses that are not processing.
\<close>

definition isProcessing :: "OrderStatus \<Rightarrow> bool" where
  "isProcessing st = (st = Pending \<or> st = Accepted \<or> st = Preparing)"

definition terminal :: "OrderStatus \<Rightarrow> bool" where
  "terminal st = (st = Ready \<or> st = Completed \<or> st = Rejected)"

text \<open>The steps of the progress timeline, and the two marks of a step.\<close>

definition step_statuses :: "OrderStatus list" where
  "step_statuses = [Pending, Accepted, Preparing, Ready, Completed]"

definition isActive :: "OrderStatus \<Rightarrow> OrderStatus \<Rightarrow> bool" where
  "isActive order_status step_status = (order_status = step_status)"

definition isCompleted :: "OrderStatus \<Rightarrow> OrderStatus \<Rightarrow> bool" where
  "isCompleted order_status step_status =
     ((step_status = Pending \<and> order_status \<in> set [Accepted, Preparing, Ready, Completed]) \<or>
      (step_status = Accepted \<and> order_status \<in> set [Preparing, Ready, Completed]) \<or>
      (step_status = Preparing \<and> order_status \<in> set [Ready, Completed]) \<or>
      (step_status = Ready \<and> order_status = Completed) \<or>
      (step_status = Completed \<and> order_status = Completed))"

text \<open>
  The order of the specification, \<open>pending < accepted < preparing < ready < completed\<close>,
  with \<open>rejected\<close> outside it.
\<close>

fun seq_pos :: "OrderStatus \<Rightarrow> nat option" where
  "seq_pos Pending = Some 0"
| "seq_pos Accepted = Some 1"
| "seq_pos Preparing = Some 2"
| "seq_pos Ready = Some 3"
| "seq_pos Completed = Some 4"
| "seq_pos Rejected = None"

definition strictly_later :: "OrderStatus \<Rightarrow> OrderStatus \<Rightarrow> bool" where
  "strictly_later order_status step_status =
     (case (seq_pos order_status, seq_pos step_status) of
        (Some i, Some j) \<Rightarrow> j < i
      | _ \<Rightarrow> False)"

section \<open>Example data\<close>

definition jollof :: MenuItem where
  "jollof = \<lparr>item_id = ''m1'', item_name = ''Jollof rice'', item_description = ''Party jollof'',
     price = Num 500, imageUrl = [], isAvailable = True, preparationTime = Num 15,
     categoryId = ''c1''\<rparr>"

definition suya :: MenuItem where
  "suya = \<lparr>item_id = ''m2'', item_name = ''Suya'', item_description = ''Beef suya'',
     price = Num 1200, imageUrl = [], isAvailable = True, preparationTime = Num 10,
     categoryId = ''c1''\<rparr>"

definition example_ops :: "cart_op list" where
  "example_ops = [Add jollof (Some (Num 2)), Add suya None, Add jollof None,
     SetQuantity ''m2'' (Num 4), Remove ''m9'']"

definition big_item :: MenuItem where
  "big_item = \<lparr>item_id = ''m3'', item_name = ''Banquet'', item_description = [],
     price = Num 9007199254740992, imageUrl = [], isAvailable = True,
     preparationTime = Num 60, categoryId = ''c2''\<rparr>"

definition one_item :: MenuItem where
  "one_item = \<lparr>item_id = ''m4'', item_name = ''Sachet water'', item_description = [],
     price = Num 1, imageUrl = [], isAvailable = True,
     preparationTime = Num 0, categoryId = ''c2''\<rparr>"


definition big_cart :: cart where
  "big_cart = run_ops [Add big_item (Some (Num 1)), Add one_item (Some (Num 1))] []"

definition table1 :: Table where
  "table1 = \<lparr>table_id = ''t1'', tableNumber = ''1'', tableName = ''Window'', capacity = Num 4,
     location = ''Main Hall'', qrCodeUrl = None, qrCodeData = None, orderWebsiteUrl = None,
     table_isActive = None, table_createdAt = None, table_updatedAt = None\<rparr>"

definition order1 :: Order where
  "order1 = \<lparr>order_id = ''o1'', orderNumber = ''ORD-1'', tableId = ''t1'', order_table = None,
     status = Pending, totalAmount = Num 2700, order_paymentMethod = ''cash'',
     paymentStatus = PaymentPending, order_specialInstructions = None, items = [],
     order_createdAt = ''2025-01-01'', order_updatedAt = ''2025-01-01''\<rparr>"

definition order1_completed :: Order where
  "order1_completed = order1\<lparr>status := Completed\<rparr>"

definition cash_method :: PaymentMethodInfo where
  "cash_method = \<lparr>pm_id = ''p1'', pm_type = Cash, pm_name = ''Cash'', pm_isActive = True,
     bankName = None, accountNumber = None, accountName = None, pm_createdAt = ''2025-01-01''\<rparr>"

definition transfer_method :: PaymentMethodInfo where
  "transfer_method = \<lparr>pm_id = ''p2'', pm_type = Transfer, pm_name = ''Bank transfer'',
     pm_isActive = True, bankName = Some ''First Bank'', accountNumber = Some ''0123456789'',
     accountName = Some ''Restaurant'', pm_createdAt = ''2025-01-01''\<rparr>"

definition payment1 :: Payment where
  "payment1 = \<lparr>payment_id = ''pay1'', payment_orderId = ''o1'', payment_method = ''transfer'',
     payment_status = PaymentPending, amount = Num 2700, receiptImageUrl = None,
     payment_createdAt = ''2025-01-01'', payment_updatedAt = ''2025-01-01''\<rparr>"

definition unavailable :: js_error where
  "unavailable = ApiError (Num 503) ''Service Unavailable'' (Some ''Service Unavailable'')"

text \<open>A collaborator that answers every request, and one that fails every request.\<close>

definition api_ok :: collaborator where
  "api_ok = \<lparr>getPaymentMethods = Inr [cash_method, transfer_method],
     createOrder = (\<lambda>req. Inr order1),
     getOrderById = (\<lambda>orderId. Inr order1_completed),
     initiatePayment = (\<lambda>req. Inr payment1),
     uploadTransferReceipt = (\<lambda>req. Inr payment1)\<rparr>"

definition api_down :: collaborator where
  "api_down = \<lparr>getPaymentMethods = Inl unavailable,
     createOrder = (\<lambda>req. Inl unavailable),
     getOrderById = (\<lambda>orderId. Inl unavailable),
     initiatePayment = (\<lambda>req. Inl unavailable),
     uploadTransferReceipt = (\<lambda>req. Inl unavailable)\<rparr>"

definition cart_page_empty :: cart_page where
  "cart_page_empty = \<lparr>table = Some table1, cartItems = [], currentOrder = None,
     paymentMethods = [], selectedPaymentMethod = None, trace = [],
     cart_loading = False, cart_error = None, cart_specialInstructions = []\<rparr>"

definition cart_page_filled :: cart_page where
  "cart_page_filled = cart_page_empty\<lparr>cartItems := run_ops example_ops []\<rparr>"

definition cart_page_unbound :: cart_page where
  "cart_page_unbound = cart_page_filled\<lparr>table := None\<rparr>"

definition api_no_orders :: collaborator where
  "api_no_orders = api_ok\<lparr>createOrder := (\<lambda>req. Inl unavailable)\<rparr>"

definition pay_page :: payment_page where
  "pay_page = \<lparr>table = Some table1, cartItems = [], currentOrder = Some order1,
     paymentMethods = [cash_method, transfer_method], selectedPaymentMethod = Some cash_method,
     trace = [], location_orderId = Some ''o1'', pay_loading = False, pay_error = None,
     paymentInitiated = False, paymentId = None, receiptUrl = [], uploading = False\<rparr>"

definition pay_page_transfer :: payment_page where
  "pay_page_transfer = pay_page\<lparr>selectedPaymentMethod := Some transfer_method\<rparr>"

definition pay_page_awaiting :: payment_page where
  "pay_page_awaiting = handleInitiatePayment api_ok pay_page_transfer"

definition pay_page_blank_receipt :: payment_page where
  "pay_page_blank_receipt = pay_page_awaiting\<lparr>receiptUrl := ''   ''\<rparr>"

definition receipt_events_failing :: "payment_event list" where
  "receipt_events_failing = [TypeReceipt ''   '', ClickUpload api_ok,
     TypeReceipt ''https://img.example/r.png'', ClickUpload api_down, SelectMethod cash_method,
     ClickProceed api_ok]"

definition receipt_events_succeeding :: "payment_event list" where
  "receipt_events_succeeding = [TypeReceipt ''https://img.example/r.png'', ClickUpload api_down,
     ClickUpload api_ok]"

definition status_page0 :: status_page where
  "status_page0 = \<lparr>table = Some table1, cartItems = [], currentOrder = Some order1,
     paymentMethods = [], selectedPaymentMethod = None, trace = [],
     status_location_orderId = Some ''o1'', order = Some order1, status_loading = True,
     status_error = None, interval = None\<rparr>"

section \<open>The cart: lemmas\<close>

lemma js_round_exact: "\<bar>n\<bar> \<le> 2 ^ 53 \<Longrightarrow> js_round n = Num n"
  by (simp add: js_round_def)

lemma find_line_ids: "(find (\<lambda>ci. item_id (menuItem ci) = i) c = None) = (i \<notin> set (line_ids c))"
  by (auto simp: find_None_iff line_ids_def)

lemma addToCart_absent:
  "item_id item \<notin> set (line_ids c) \<Longrightarrow>
   addToCart item q c =
     c @ [\<lparr>menuItem = item, quantity = (case q of None \<Rightarrow> Num 1 | Some v \<Rightarrow> v), specialInstructions = None\<rparr>]"
  using find_line_ids[of "item_id item" c] by (simp add: addToCart_def)

lemma addToCart_present:
  "item_id item \<in> set (line_ids c) \<Longrightarrow>
   addToCart item q c =
     map (\<lambda>ci. if item_id (menuItem ci) = item_id item
                then ci\<lparr>quantity := js_add (quantity ci) (case q of None \<Rightarrow> Num 1 | Some v \<Rightarrow> v)\<rparr>
                else ci) c"
proof -
  assume "item_id item \<in> set (line_ids c)"
  then obtain a where "find (\<lambda>ci. item_id (menuItem ci) = item_id item) c = Some a"
    using find_line_ids[of "item_id item" c] by (cases "find (\<lambda>ci. item_id (menuItem ci) = item_id item) c") auto
  then show ?thesis by (simp add: addToCart_def)
qed







lemma getCartTotal_foldl:
  "getCartTotal c = foldl js_add (Num 0) (map (\<lambda>ci. js_mul (price (menuItem ci)) (quantity ci)) c)"
  by (simp add: getCartTotal_def foldl_map)

lemma foldl_js_add_exact:
  "list_all is_int xs \<Longrightarrow> \<bar>a\<bar> + sum_list (map (\<lambda>x. \<bar>int_of x\<bar>) xs) \<le> 2 ^ 53 \<Longrightarrow>
   foldl js_add (Num a) xs = Num (a + sum_list (map int_of xs))"
proof (induction xs arbitrary: a)
  case Nil
  then show ?case by simp
next
  case (Cons x xs)
  from Cons.prems(1) obtain n where x: "x = Num n" by (cases x) auto
  have nn: "0 \<le> sum_list (map (\<lambda>x. \<bar>int_of x\<bar>) xs)"
    by (rule sum_list_nonneg) auto
  have b: "\<bar>a + n\<bar> + sum_list (map (\<lambda>x. \<bar>int_of x\<bar>) xs) \<le> 2 ^ 53"
    using Cons.prems(2) x by simp
  then have "\<bar>a + n\<bar> \<le> 2 ^ 53" using nn by linarith
  then have "js_add (Num a) x = Num (a + n)" using x by (simp add: js_round_exact)
  then show ?case
    using Cons.IH[of "a + n"] Cons.prems(1) b x by (simp add: add.assoc)
qed


lemma js_mul_exact_line:
  "is_int p \<Longrightarrow> is_int q \<Longrightarrow> \<bar>int_of p * int_of q\<bar> \<le> 2 ^ 53 \<Longrightarrow>
   js_mul p q = Num (int_of p * int_of q)"
  by (cases p; cases q) (simp_all add: js_round_exact)

lemma safe_cart_products:
  "safe_cart c \<Longrightarrow>
   map (\<lambda>ci. js_mul (price (menuItem ci)) (quantity ci)) c =
   map (\<lambda>ci. Num (int_of (price (menuItem ci)) * int_of (quantity ci))) c"
proof (induction c)
  case Nil
  then show ?case by simp
next
  case (Cons ci c)
  have nn: "0 \<le> sum_list (map (\<lambda>ci. \<bar>int_of (price (menuItem ci)) * int_of (quantity ci)\<bar>) c)"
    by (rule sum_list_nonneg) auto
  from Cons.prems
  have tot: "\<bar>int_of (price (menuItem ci)) * int_of (quantity ci)\<bar> +
      sum_list (map (\<lambda>ci. \<bar>int_of (price (menuItem ci)) * int_of (quantity ci)\<bar>) c) \<le> 2 ^ 53"
    by (simp add: safe_cart_def)
  have b: "\<bar>int_of (price (menuItem ci)) * int_of (quantity ci)\<bar> \<le> 2 ^ 53"
    using tot nn by linarith
  have "sum_list (map (\<lambda>ci. \<bar>int_of (price (menuItem ci)) * int_of (quantity ci)\<bar>) c) \<le> 2 ^ 53"
    using tot abs_ge_zero[of "int_of (price (menuItem ci)) * int_of (quantity ci)"] by linarith
  then have s: "safe_cart c" using Cons.prems by (simp add: safe_cart_def)
  from Cons.prems have "is_int (price (menuItem ci))" "is_int (quantity ci)"
    by (simp_all add: safe_cart_def)
  then show ?case using b Cons.IH[OF s] by (simp add: js_mul_exact_line)
qed

lemma getCartTotal_exact: "safe_cart c \<Longrightarrow> getCartTotal c = Num (exact_total c)"
proof -
  assume sc: "safe_cart c"
  let ?ps = "map (\<lambda>ci. Num (int_of (price (menuItem ci)) * int_of (quantity ci))) c"
  have "getCartTotal c = foldl js_add (Num 0) ?ps"
    unfolding getCartTotal_foldl safe_cart_products[OF sc] ..
  moreover have "list_all is_int ?ps" by (simp add: list_all_iff)
  moreover have "\<bar>0\<bar> + sum_list (map (\<lambda>x. \<bar>int_of x\<bar>) ?ps) \<le> 2 ^ 53"
    using sc by (simp add: safe_cart_def comp_def)
  ultimately show ?thesis
    using foldl_js_add_exact[of ?ps 0] by (simp add: exact_total_def comp_def)
qed

section \<open>The cart: claims\<close>

lemma example_ops_run:
  "run_ops example_ops [] =
     [\<lparr>menuItem = jollof, quantity = Num 3, specialInstructions = None\<rparr>,
      \<lparr>menuItem = suya, quantity = Num 4, specialInstructions = None\<rparr>]"
  by (simp add: example_ops_def run_ops_def addToCart_def updateCartItemQuantity_def
      removeFromCart_def jollof_def suya_def js_round_def)

lemma ulp_exp_2_53_1: "ulp_exp 9007199254740993 = 1"
  by (simp add: ulp_exp.simps)

lemma js_round_2_53_1: "js_round 9007199254740993 = Num 9007199254740992"
  by (simp add: js_round_def round_magnitude_def ulp_exp_2_53_1 Let_def)





lemma big_cart_lines:
  "big_cart = [\<lparr>menuItem = big_item, quantity = Num 1, specialInstructions = None\<rparr>,
               \<lparr>menuItem = one_item, quantity = Num 1, specialInstructions = None\<rparr>]"
  by (simp add: big_cart_def run_ops_def addToCart_def big_item_def one_item_def)

text \<open>
  Claim C8 says that the total is the sum of price times quantity in exact integer
  arithmetic, never in binary floating point. The program adds and multiplies \<open>number\<close>s,
  which are doubles. In the cart below every price and quantity is an integer that a
  double holds exactly; the exact total \<open>2 ^ 53 + 1\<close> has no double, and the program's
  total is \<open>2 ^ 53\<close>.
\<close>

theorem C8_total_not_exact_counterexample:
  "list_all (\<lambda>ci. is_int (price (menuItem ci)) \<and> is_int (quantity ci)) big_cart \<and>
   exact_total big_cart = 9007199254740993 \<and>
   getCartTotal big_cart = Num 9007199254740992"
  by (simp add: big_cart_lines exact_total_def getCartTotal_def big_item_def one_item_def
      js_round_exact js_round_2_53_1)

text \<open>
  Claim C8, amended. The total of the empty cart is zero; for every cart in the exact
  range \<open>getCartTotal\<close> is the exact integer sum over the lines of unit price times
  quantity; and after adding an item priced 500 three times and another item priced 1200
  once the total is 2700, and 1200 after the quantity of the first is set to 0.
\<close>

theorem C8_total_exact_in_range:
  "getCartTotal [] = Num 0 \<and>
   (safe_cart c \<longrightarrow> getCartTotal c = Num (exact_total c)) \<and>
   (price a = Num 500 \<and> price b = Num 1200 \<and> item_id a \<noteq> item_id b \<longrightarrow>
      getCartTotal (run_ops [Add a (Some (Num 3)), Add b (Some (Num 1))] []) = Num 2700 \<and>
      getCartTotal (run_ops [Add a (Some (Num 3)), Add b (Some (Num 1)),
                             SetQuantity (item_id a) (Num 0)] []) = Num 1200)"
proof -
  have "getCartTotal [] = Num 0" by (simp add: getCartTotal_def)
  moreover have "getCartTotal (run_ops [Add a (Some (Num 3)), Add b (Some (Num 1))] []) = Num 2700"
    if "price a = Num 500" "price b = Num 1200" "item_id a \<noteq> item_id b"
    using that by (simp add: run_ops_def addToCart_def getCartTotal_def js_round_exact)
  moreover have "getCartTotal (run_ops [Add a (Some (Num 3)), Add b (Some (Num 1)),
                             SetQuantity (item_id a) (Num 0)] []) = Num 1200"
    if "price a = Num 500" "price b = Num 1200" "item_id a \<noteq> item_id b"
    using that
    by (simp add: run_ops_def addToCart_def updateCartItemQuantity_def removeFromCart_def
        getCartTotal_def js_round_exact)
  ultimately show ?thesis by (simp add: getCartTotal_exact)
qed

text \<open>The amended claim at a cart in the exact range and at the two items of the example.\<close>

theorem C8_total_exact_in_range_witness:
  "safe_cart (run_ops example_ops []) \<and>
   getCartTotal (run_ops example_ops []) = Num 6300 \<and>
   getCartTotal (run_ops [Add jollof (Some (Num 3)), Add suya (Some (Num 1))] []) = Num 2700 \<and>
   getCartTotal (run_ops [Add jollof (Some (Num 3)), Add suya (Some (Num 1)),
                          SetQuantity (item_id jollof) (Num 0)] []) = Num 1200"
proof -
  have s: "safe_cart (run_ops example_ops [])"
    by (simp add: example_ops_run safe_cart_def jollof_def suya_def)
  have e: "exact_total (run_ops example_ops []) = 6300"
    by (simp add: example_ops_run exact_total_def jollof_def suya_def)
  have p: "price jollof = Num 500 \<and> price suya = Num 1200 \<and> item_id jollof \<noteq> item_id suya"
    by (simp add: jollof_def suya_def)
  show ?thesis
    using C8_total_exact_in_range[of "run_ops example_ops []" jollof suya] s e p by simp
qed

text \<open>
  Claim C9. \<open>addToCart\<close> does not validate its quantity. For an integer \<open>n \<le> 0\<close>: an
  item that is not in the cart gets a new line with the quantity \<open>n\<close>; for an item that is
  in the cart \<open>n\<close> is added to the quantity of its line, which takes a quantity \<open>k\<close> with
  \<open>1 \<le> k \<le> - n\<close> to \<open>k + n \<le> 0\<close>; and one call on the empty cart gives a cart with a
  line whose quantity is below 1.
\<close>

theorem C9_addToCart_unvalidated:
  "n \<le> 0 \<Longrightarrow>
   (item_id item \<notin> set (line_ids c) \<longrightarrow>
      addToCart item (Some (Num n)) c =
        c @ [\<lparr>menuItem = item, quantity = Num n, specialInstructions = None\<rparr>]) \<and>
   (item_id item \<in> set (line_ids c) \<longrightarrow>
      addToCart item (Some (Num n)) c =
        map (\<lambda>ci. if item_id (menuItem ci) = item_id item
                   then ci\<lparr>quantity := js_add (quantity ci) (Num n)\<rparr> else ci) c) \<and>
   (ci \<in> set c \<and> item_id (menuItem ci) = item_id item \<and> quantity ci = Num k \<and>
    1 \<le> k \<and> k \<le> - n \<and> - n \<le> 2 ^ 53 \<longrightarrow>
      ci\<lparr>quantity := Num (k + n)\<rparr> \<in> set (addToCart item (Some (Num n)) c) \<and> k + n \<le> 0) \<and>
   list_ex (\<lambda>ci. \<not> js_le (Num 1) (quantity ci)) (run_ops [Add item (Some (Num n))] [])"
proof -
  assume n: "n \<le> 0"
  have drive: "ci\<lparr>quantity := Num (k + n)\<rparr> \<in> set (addToCart item (Some (Num n)) c)"
    if "ci \<in> set c" "item_id (menuItem ci) = item_id item" "quantity ci = Num k"
       "1 \<le> k" "k \<le> - n" "- n \<le> 2 ^ 53"
  proof -
    let ?f = "\<lambda>ci. if item_id (menuItem ci) = item_id item
                   then ci\<lparr>quantity := js_add (quantity ci) (Num n)\<rparr> else ci"
    have present: "item_id item \<in> set (line_ids c)"
      using that(1,2) by (force simp: line_ids_def)
    have "\<bar>k + n\<bar> \<le> 2 ^ 53" using that(4,5,6) by linarith
    then have "js_add (quantity ci) (Num n) = Num (k + n)"
      using that(3) by (simp add: js_round_exact)
    then have "?f ci = ci\<lparr>quantity := Num (k + n)\<rparr>" using that(2) by simp
    moreover have "?f ci \<in> set (map ?f c)"
      using that(1) unfolding set_map by (rule imageI)
    ultimately show ?thesis
      using addToCart_present[OF present, of "Some (Num n)"] by simp
  qed
  have "list_ex (\<lambda>ci. \<not> js_le (Num 1) (quantity ci)) (run_ops [Add item (Some (Num n))] [])"
    using n by (simp add: run_ops_def addToCart_def)
  then show ?thesis
    using n drive by (auto simp: addToCart_absent addToCart_present)
qed

text \<open>The claim at \<open>n = - 3\<close>, for an item that is absent and for one that is present.\<close>

theorem C9_addToCart_unvalidated_witness:
  "addToCart one_item (Some (Num (- 3))) [] =
     [\<lparr>menuItem = one_item, quantity = Num (- 3), specialInstructions = None\<rparr>] \<and>
   addToCart jollof (Some (Num (- 3))) (run_ops example_ops []) =
     [\<lparr>menuItem = jollof, quantity = Num 0, specialInstructions = None\<rparr>,
      \<lparr>menuItem = suya, quantity = Num 4, specialInstructions = None\<rparr>] \<and>
   list_ex (\<lambda>ci. \<not> js_le (Num 1) (quantity ci)) (run_ops [Add jollof (Some (Num (- 3)))] [])"
proof -
  have n: "(- 3 :: int) \<le> 0" by simp
  have absent: "item_id one_item \<notin> set (line_ids [])" by (simp add: line_ids_def)
  have present: "item_id jollof \<in> set (line_ids (run_ops example_ops []))"
    by (simp add: example_ops_run line_ids_def)
  show ?thesis
    using C9_addToCart_unvalidated[OF n, of one_item "[]"]
      C9_addToCart_unvalidated[OF n, of jollof "run_ops example_ops []"] absent present
    by (simp add: example_ops_run jollof_def suya_def js_round_def)
qed

lemma getCartTotal_cong:
  "map menuItem c' = map menuItem c \<Longrightarrow> map quantity c' = map quantity c \<Longrightarrow>
   getCartTotal c' = getCartTotal c"
proof -
  assume m: "map menuItem c' = map menuItem c" and q: "map quantity c' = map quantity c"
  have "map (\<lambda>ci. js_mul (price (menuItem ci)) (quantity ci)) d =
        map (\<lambda>(m, q). js_mul (price m) q) (zip (map menuItem d) (map quantity d))" for d :: cart
    by (induction d) simp_all
  then show ?thesis using m q by (simp add: getCartTotal_foldl)
qed

text \<open>
  Claim C10. \<open>updateCartItemInstructions\<close> changes nothing but the \<open>specialInstructions\<close>
  of the lines with the given item id: the item ids and their order, the menu items, the
  quantities, the number of lines and \<open>getCartTotal\<close> stay the same, every line with
  another id stays as it is, and a cart without the id is returned unchanged.
\<close>

theorem C10_instructions_frame:
  "(let c' = updateCartItemInstructions itemId text c
    in line_ids c' = line_ids c \<and>
       map menuItem c' = map menuItem c \<and>
       map quantity c' = map quantity c \<and>
       getCartTotal c' = getCartTotal c \<and>
       length c' = length c \<and>
       (\<forall>i < length c.
          c' ! i = (if item_id (menuItem (c ! i)) = itemId
                    then (c ! i)\<lparr>specialInstructions := Some text\<rparr> else c ! i)) \<and>
       (itemId \<notin> set (line_ids c) \<longrightarrow> c' = c))"
proof -
  let ?c' = "updateCartItemInstructions itemId text c"
  have m: "map menuItem ?c' = map menuItem c"
    by (simp add: updateCartItemInstructions_def)
  have q: "map quantity ?c' = map quantity c"
    by (simp add: updateCartItemInstructions_def)
  have ids: "line_ids ?c' = line_ids c"
    by (simp add: updateCartItemInstructions_def line_ids_def)
  have absent: "itemId \<notin> set (line_ids c) \<Longrightarrow> ?c' = c"
    unfolding updateCartItemInstructions_def line_ids_def
    by (intro map_idI) auto
  have nth: "\<forall>i < length c.
          ?c' ! i = (if item_id (menuItem (c ! i)) = itemId
                    then (c ! i)\<lparr>specialInstructions := Some text\<rparr> else c ! i)"
    by (simp add: updateCartItemInstructions_def)
  have len: "length ?c' = length c"
    by (simp add: updateCartItemInstructions_def)
  show ?thesis
    unfolding Let_def using m q ids absent nth len getCartTotal_cong[OF m q] by blast
qed

text \<open>The claim at an id that is in the cart and at one that is not.\<close>

theorem C10_instructions_frame_witness:
  "updateCartItemInstructions ''m2'' ''no pepper'' (run_ops example_ops []) =
     [\<lparr>menuItem = jollof, quantity = Num 3, specialInstructions = None\<rparr>,
      \<lparr>menuItem = suya, quantity = Num 4, specialInstructions = Some ''no pepper''\<rparr>] \<and>
   getCartTotal (updateCartItemInstructions ''m2'' ''no pepper'' (run_ops example_ops [])) =
     getCartTotal (run_ops example_ops []) \<and>
   updateCartItemInstructions ''m9'' ''no pepper'' (run_ops example_ops []) =
     run_ops example_ops []"
proof -
  have absent: "''m9'' \<notin> set (line_ids (run_ops example_ops []))"
    by (simp add: example_ops_run line_ids_def jollof_def suya_def)
  have upd: "updateCartItemInstructions ''m2'' ''no pepper'' (run_ops example_ops []) =
     [\<lparr>menuItem = jollof, quantity = Num 3, specialInstructions = None\<rparr>,
      \<lparr>menuItem = suya, quantity = Num 4, specialInstructions = Some ''no pepper''\<rparr>]"
    by (simp add: example_ops_run updateCartItemInstructions_def jollof_def suya_def)
  show ?thesis
    using C10_instructions_frame[of "''m2''" "''no pepper''" "run_ops example_ops []"]
      C10_instructions_frame[of "''m9''" "''no pepper''" "run_ops example_ops []"] absent upd
    by (simp add: Let_def)
qed

section \<open>The cart page: claims\<close>

text \<open>
  Claim C1 says that submitting an empty cart fails with a \<open>ValidationError\<close>, and that
  with an unbound table the failure comes before any network call. The program has no
  \<open>ValidationError\<close>: on an empty cart \<open>handleCheckout\<close> returns at its guard and reports
  no error at all. With a cart that is not empty and no table it has already called
  \<open>getPaymentMethods\<close> when reading \<open>table!.id\<close> fails.
\<close>

theorem C1_checkout_guard_counterexample:
  "cartItems cart_page_empty = [] \<and>
   cart_error (handleCheckout api_ok cart_page_empty) = None \<and>
   cartItems cart_page_unbound \<noteq> [] \<and> table cart_page_unbound = None \<and>
   trace cart_page_unbound = [] \<and>
   trace (handleCheckout api_ok cart_page_unbound) = [Call_getPaymentMethods]"
  by (simp add: cart_page_empty_def cart_page_filled_def cart_page_unbound_def example_ops_run
      handleCheckout_def api_ok_def checkout_failed_def)

text \<open>
  Claim C1, amended. On an empty cart \<open>handleCheckout\<close> returns the page as it was: no
  error is reported and no effect happens, so neither \<open>getPaymentMethods\<close> nor
  \<open>createOrder\<close> is called. With a cart that is not empty and an unbound table, the only
  effect is the call of \<open>getPaymentMethods\<close>: \<open>createOrder\<close> is never called, an error
  message is reported, and the cart and the active order are as before.
\<close>

theorem C1_checkout_guard:
  "(cartItems s = [] \<longrightarrow> handleCheckout api s = s) \<and>
   (cartItems s \<noteq> [] \<and> table s = None \<longrightarrow>
      (let s' = handleCheckout api s
       in trace s' = trace s @ [Call_getPaymentMethods] \<and>
          cart_error s' \<noteq> None \<and>
          cartItems s' = cartItems s \<and> currentOrder s' = currentOrder s))"
  by (cases "getPaymentMethods api")
    (simp_all add: handleCheckout_def checkout_failed_def Let_def message_or_def
      null_read_message_def)

text \<open>The amended claim at an empty cart and at a filled cart without a table.\<close>

theorem C1_checkout_guard_witness:
  "handleCheckout api_down cart_page_empty = cart_page_empty \<and>
   trace (handleCheckout api_down cart_page_unbound) = [Call_getPaymentMethods] \<and>
   cart_error (handleCheckout api_ok cart_page_unbound) = Some null_read_message \<and>
   cartItems (handleCheckout api_ok cart_page_unbound) = run_ops example_ops []"
proof -
  have e: "cartItems cart_page_empty = []" by (simp add: cart_page_empty_def)
  have u: "cartItems cart_page_unbound \<noteq> [] \<and> table cart_page_unbound = None"
    by (simp add: cart_page_unbound_def cart_page_filled_def cart_page_empty_def example_ops_run)
  have t: "trace cart_page_unbound = []" "cartItems cart_page_unbound = run_ops example_ops []"
    by (simp_all add: cart_page_unbound_def cart_page_filled_def cart_page_empty_def)
  have m: "cart_error (handleCheckout api_ok cart_page_unbound) = Some null_read_message"
    using u by (simp add: handleCheckout_def api_ok_def checkout_failed_def message_or_def
        null_read_message_def)
  show ?thesis
    using C1_checkout_guard[of cart_page_empty api_down]
      C1_checkout_guard[of cart_page_unbound api_down]
      C1_checkout_guard[of cart_page_unbound api_ok] e u t m
    by (simp add: Let_def)
qed

text \<open>
  Claim C2. For a submission from a cart that is not empty with a bound table: when the
  order is created, the cart is empty afterwards, \<open>clearCart\<close> has been called exactly
  once, and the active order is the created order, so its id is the created order's id;
  when \<open>createOrder\<close> fails, or \<open>getPaymentMethods\<close> fails before it, the cart and the
  active order are unchanged, \<open>clearCart\<close> has not been called and the error is reported.
\<close>

theorem C2_checkout_outcome:
  "cartItems s \<noteq> [] \<and> table s = Some t \<Longrightarrow>
   (let s' = handleCheckout api s;
        req = (\<lambda>methods. checkoutRequest t (cartItems s) (defaultMethod methods)
                 (cart_specialInstructions s))
    in (\<forall>methods order.
          getPaymentMethods api = Inr methods \<and> createOrder api (req methods) = Inr order \<longrightarrow>
            cartItems s' = [] \<and>
            currentOrder s' = Some order \<and>
            map_option order_id (currentOrder s') = Some (order_id order) \<and>
            count_list (trace s') ClearCart = count_list (trace s) ClearCart + 1 \<and>
            trace s' = trace s @ [Call_getPaymentMethods, Call_createOrder (req methods),
                                  ClearCart, Navigate ''/payment'' (Some (order_id order))]) \<and>
       (\<forall>methods err.
          getPaymentMethods api = Inr methods \<and> createOrder api (req methods) = Inl err \<longrightarrow>
            cartItems s' = cartItems s \<and>
            currentOrder s' = currentOrder s \<and>
            count_list (trace s') ClearCart = count_list (trace s) ClearCart \<and>
            cart_error s' = Some (message_or err ''Failed to create order'') \<and>
            trace s' = trace s @ [Call_getPaymentMethods, Call_createOrder (req methods)]) \<and>
       (\<forall>err.
          getPaymentMethods api = Inl err \<longrightarrow>
            cartItems s' = cartItems s \<and>
            currentOrder s' = currentOrder s \<and>
            count_list (trace s') ClearCart = count_list (trace s) ClearCart \<and>
            cart_error s' = Some (message_or err ''Failed to create order'') \<and>
            trace s' = trace s @ [Call_getPaymentMethods]))"
  by (auto simp: handleCheckout_def checkout_failed_def Let_def clearCart_def)

text \<open>
  The claim at a filled cart, with a collaborator that creates the order, one that refuses
  it and one that fails every request.
\<close>

theorem C2_checkout_outcome_witness:
  "cartItems (handleCheckout api_ok cart_page_filled) = [] \<and>
   map_option order_id (currentOrder (handleCheckout api_ok cart_page_filled)) = Some ''o1'' \<and>
   count_list (trace (handleCheckout api_ok cart_page_filled)) ClearCart = 1 \<and>
   cartItems (handleCheckout api_no_orders cart_page_filled) = run_ops example_ops [] \<and>
   currentOrder (handleCheckout api_no_orders cart_page_filled) = None \<and>
   cartItems (handleCheckout api_down cart_page_filled) = run_ops example_ops [] \<and>
   currentOrder (handleCheckout api_down cart_page_filled) = None"
proof -
  have p: "cartItems cart_page_filled \<noteq> [] \<and> table cart_page_filled = Some table1"
    by (simp add: cart_page_filled_def cart_page_empty_def example_ops_run)
  have f: "cartItems cart_page_filled = run_ops example_ops []"
    "currentOrder cart_page_filled = None" "trace cart_page_filled = []"
    by (simp_all add: cart_page_filled_def cart_page_empty_def)
  have a: "getPaymentMethods api_ok = Inr [cash_method, transfer_method]"
    "createOrder api_ok = (\<lambda>req. Inr order1)"
    "getPaymentMethods api_no_orders = Inr [cash_method, transfer_method]"
    "createOrder api_no_orders = (\<lambda>req. Inl unavailable)"
    "getPaymentMethods api_down = Inl unavailable"
    by (simp_all add: api_ok_def api_no_orders_def api_down_def)
  have o: "order_id order1 = ''o1''" by (simp add: order1_def)
  show ?thesis
    using C2_checkout_outcome[OF p, of api_ok] C2_checkout_outcome[OF p, of api_no_orders]
      C2_checkout_outcome[OF p, of api_down] f a o
    by (simp add: Let_def)
qed

section \<open>The payment page: claims\<close>

lemma all_dropWhile: "(\<forall>x\<in>set (dropWhile P xs). P x) = (\<forall>x\<in>set xs. P x)"
  by (induction xs) auto

lemma trim_empty_iff: "(trim s = []) = list_all js_whitespace s"
  by (simp add: trim_def dropWhile_eq_Nil_conv list_all_iff all_dropWhile)

lemma pay_page_awaiting_eq:
  "pay_page_awaiting = pay_page_transfer\<lparr>trace := [Call_initiatePayment
      \<lparr>ip_orderId = ''o1'', ip_paymentMethod = Transfer\<rparr>], paymentId := Some ''pay1'',
      paymentInitiated := True\<rparr>"
  by (simp add: pay_page_awaiting_def pay_page_transfer_def pay_page_def handleInitiatePayment_def
      orderId_of_def truthy_def transfer_method_def api_ok_def payment1_def)

text \<open>
  Claim C6 says that uploading an empty or whitespace-only receipt reference fails with a
  \<open>ValidationError\<close>. On the page that awaits a receipt, with three spaces typed,
  \<open>handleUploadReceipt\<close> returns at its guard and reports no error.
\<close>

theorem C6_blank_receipt_counterexample:
  "list_all js_whitespace (receiptUrl pay_page_blank_receipt) \<and>
   paymentId pay_page_blank_receipt = Some ''pay1'' \<and>
   pay_error (handleUploadReceipt api_ok pay_page_blank_receipt) = None"
  by (simp add: pay_page_blank_receipt_def pay_page_awaiting_eq pay_page_transfer_def pay_page_def
      handleUploadReceipt_def trim_def js_whitespace_def)

text \<open>
  Claim C6, amended. For every receipt reference that is empty or consists of whitespace
  only, \<open>handleUploadReceipt\<close> returns the page as it was: no error is reported and no
  effect happens, so \<open>uploadTransferReceipt\<close> is not called.
\<close>

theorem C6_blank_receipt:
  "list_all js_whitespace (receiptUrl s) \<Longrightarrow> handleUploadReceipt api s = s"
  by (simp add: handleUploadReceipt_def trim_empty_iff split: option.splits)

text \<open>The amended claim at a receipt of three spaces and at the empty receipt.\<close>

theorem C6_blank_receipt_witness:
  "list_all js_whitespace ''   '' \<and>
   handleUploadReceipt api_ok pay_page_blank_receipt = pay_page_blank_receipt \<and>
   handleUploadReceipt api_ok pay_page_awaiting = pay_page_awaiting"
proof -
  have b: "list_all js_whitespace (receiptUrl pay_page_blank_receipt)"
    by (simp add: pay_page_blank_receipt_def js_whitespace_def)
  have e: "list_all js_whitespace (receiptUrl pay_page_awaiting)"
    by (simp add: pay_page_awaiting_eq pay_page_transfer_def pay_page_def)
  show ?thesis
    using C6_blank_receipt[OF b, of api_ok] C6_blank_receipt[OF e, of api_ok]
    by (simp add: js_whitespace_def)
qed

lemma awaiting_step:
  "paymentInitiated s \<Longrightarrow>
   paymentInitiated (payment_step ev s) \<and>
   checkout_complete (trace (payment_step ev s)) =
     (checkout_complete (trace s) \<or> upload_succeeds ev s)"
proof (cases ev)
  case (ClickUpload api)
  assume "paymentInitiated s"
  then show ?thesis
    using ClickUpload
    by (auto simp: handleUploadReceipt_def checkout_complete_def Let_def
        split: option.splits sum.splits)
qed (simp_all add: checkout_complete_def)

lemma awaiting_run:
  "paymentInitiated s \<Longrightarrow>
   paymentInitiated (payment_run evs s) \<and>
   checkout_complete (trace (payment_run evs s)) =
     (checkout_complete (trace s) \<or> some_upload_succeeds evs s)"
proof (induction evs arbitrary: s)
  case Nil
  then show ?case by (simp add: payment_run_def)
next
  case (Cons ev evs)
  have run: "payment_run (ev # evs) s = payment_run evs (payment_step ev s)"
    by (simp add: payment_run_def)
  from awaiting_step[OF Cons.prems, of ev]
  have st: "paymentInitiated (payment_step ev s)"
    and cc: "checkout_complete (trace (payment_step ev s)) =
       (checkout_complete (trace s) \<or> upload_succeeds ev s)"
    by simp_all
  from Cons.IH[OF st] cc show ?case
    unfolding run by auto
qed

text \<open>
  Claim C5. Let a payment method be selected, the order id be known and the collaborator
  answer \<open>initiatePayment\<close> with a payment record. For \<open>cash\<close> and \<open>pos\<close> the handler
  navigates to the order status page at once, completing the checkout, and the page does
  not enter the state that awaits a receipt. For \<open>transfer\<close> the page enters that state
  without navigating, and from then on, whatever is done on the page, the checkout is
  complete exactly when a receipt upload has succeeded (or it was complete before).
\<close>

theorem C5_payment_branches:
  "selectedPaymentMethod s = Some method \<and>
   orderId_of (location_orderId s) (currentOrder s) = Some orderId \<and> orderId \<noteq> [] \<and>
   initiatePayment api \<lparr>ip_orderId = orderId, ip_paymentMethod = pm_type method\<rparr> = Inr payment \<and>
   \<not> paymentInitiated s \<Longrightarrow>
   (let s' = handleInitiatePayment api s;
        req = \<lparr>ip_orderId = orderId, ip_paymentMethod = pm_type method\<rparr>
    in (pm_type method = Cash \<or> pm_type method = Pos \<longrightarrow>
          \<not> paymentInitiated s' \<and>
          trace s' = trace s @ [Call_initiatePayment req, Navigate ''/order-status'' (Some orderId)] \<and>
          checkout_complete (trace s')) \<and>
       (pm_type method = Transfer \<longrightarrow>
          paymentInitiated s' \<and>
          trace s' = trace s @ [Call_initiatePayment req] \<and>
          (\<forall>evs. checkout_complete (trace (payment_run evs s')) =
                   (checkout_complete (trace s) \<or> some_upload_succeeds evs s'))))"
proof -
  assume a: "selectedPaymentMethod s = Some method \<and>
   orderId_of (location_orderId s) (currentOrder s) = Some orderId \<and> orderId \<noteq> [] \<and>
   initiatePayment api \<lparr>ip_orderId = orderId, ip_paymentMethod = pm_type method\<rparr> = Inr payment \<and>
   \<not> paymentInitiated s"
  let ?s' = "handleInitiatePayment api s"
  let ?req = "\<lparr>ip_orderId = orderId, ip_paymentMethod = pm_type method\<rparr>"
  have direct: "pm_type method \<noteq> Transfer \<Longrightarrow>
      \<not> paymentInitiated ?s' \<and>
      trace ?s' = trace s @ [Call_initiatePayment ?req, Navigate ''/order-status'' (Some orderId)] \<and>
      checkout_complete (trace ?s')"
    using a by (simp add: handleInitiatePayment_def Let_def checkout_complete_def)
  have transfer: "pm_type method = Transfer \<Longrightarrow>
      paymentInitiated ?s' \<and> trace ?s' = trace s @ [Call_initiatePayment ?req]"
    using a by (simp add: handleInitiatePayment_def Let_def)
  have later: "checkout_complete (trace (payment_run evs ?s')) =
      (checkout_complete (trace s) \<or> some_upload_succeeds evs ?s')"
    if t: "pm_type method = Transfer" for evs
  proof -
    have "checkout_complete (trace ?s') = checkout_complete (trace s)"
      using transfer[OF t] by (simp add: checkout_complete_def)
    then show ?thesis
      using awaiting_run[of ?s' evs] transfer[OF t] by simp
  qed
  show ?thesis
    unfolding Let_def using direct transfer later by auto
qed

lemma trim_url: "trim ''https://img.example/r.png'' \<noteq> []"
  by (simp add: trim_def js_whitespace_def)

lemma trim_blank: "trim ''   '' = []"
  by (simp add: trim_def js_whitespace_def)

lemma failing_no_upload: "\<not> some_upload_succeeds receipt_events_failing pay_page_awaiting"
  by (simp add: receipt_events_failing_def pay_page_awaiting_eq pay_page_transfer_def pay_page_def
      handleUploadReceipt_def trim_blank trim_url api_down_def api_ok_def Let_def)

lemma succeeding_upload: "some_upload_succeeds receipt_events_succeeding pay_page_awaiting"
  by (simp add: receipt_events_succeeding_def pay_page_awaiting_eq pay_page_transfer_def
      pay_page_def handleUploadReceipt_def trim_url api_down_def api_ok_def Let_def)

text \<open>
  The claim at a cash payment and at a transfer, followed by events none of which is a
  successful upload, and by events that end with one.
\<close>

theorem C5_payment_branches_witness:
  "\<not> paymentInitiated (handleInitiatePayment api_ok pay_page) \<and>
   checkout_complete (trace (handleInitiatePayment api_ok pay_page)) \<and>
   paymentInitiated (handleInitiatePayment api_ok pay_page_transfer) \<and>
   \<not> checkout_complete (trace (handleInitiatePayment api_ok pay_page_transfer)) \<and>
   \<not> checkout_complete (trace (payment_run receipt_events_failing
        (handleInitiatePayment api_ok pay_page_transfer))) \<and>
   checkout_complete (trace (payment_run receipt_events_succeeding
        (handleInitiatePayment api_ok pay_page_transfer)))"
proof -
  have c: "selectedPaymentMethod pay_page = Some cash_method \<and>
     orderId_of (location_orderId pay_page) (currentOrder pay_page) = Some ''o1'' \<and> ''o1'' \<noteq> [] \<and>
     initiatePayment api_ok \<lparr>ip_orderId = ''o1'', ip_paymentMethod = pm_type cash_method\<rparr> = Inr payment1 \<and>
     \<not> paymentInitiated pay_page"
    by (simp add: pay_page_def orderId_of_def truthy_def api_ok_def)
  have t: "selectedPaymentMethod pay_page_transfer = Some transfer_method \<and>
     orderId_of (location_orderId pay_page_transfer) (currentOrder pay_page_transfer) = Some ''o1'' \<and>
     ''o1'' \<noteq> [] \<and>
     initiatePayment api_ok \<lparr>ip_orderId = ''o1'', ip_paymentMethod = pm_type transfer_method\<rparr> = Inr payment1 \<and>
     \<not> paymentInitiated pay_page_transfer"
    by (simp add: pay_page_transfer_def pay_page_def orderId_of_def truthy_def api_ok_def)
  have m: "pm_type cash_method = Cash" "pm_type transfer_method = Transfer"
    by (simp_all add: cash_method_def transfer_method_def)
  have e: "trace pay_page_transfer = []"
    by (simp add: pay_page_transfer_def pay_page_def)
  show ?thesis
    using C5_payment_branches[OF c] C5_payment_branches[OF t] m e
      failing_no_upload succeeding_upload
    by (simp add: Let_def pay_page_awaiting_def checkout_complete_def)
qed

section \<open>The order status page: claims\<close>

lemma terminal_iff: "terminal st = (\<not> isProcessing st)"
  by (cases st) (simp_all add: terminal_def isProcessing_def)

lemma status_effect_page0:
  "status_effect api_ok status_page0 =
     status_page0\<lparr>currentOrder := Some order1_completed, trace := [Call_getOrderById ''o1''],
       order := Some order1_completed, status_loading := False, interval := Some ''o1''\<rparr>"
  by (simp add: status_effect_def status_page0_def orderId_of_def truthy_def loadOrder_def
      api_ok_def)

text \<open>
  Claim C3 says that once the status of the order is terminal the tracker issues no
  further refresh. The first load below brings the status \<open>completed\<close>; the next firing of
  the timer calls \<open>getOrderById\<close> again.
\<close>

theorem C3_polling_terminal_counterexample:
  "map_option status (order (status_effect api_ok status_page0)) = Some Completed \<and>
   terminal Completed \<and>
   trace (status_effect api_ok status_page0) = [Call_getOrderById ''o1''] \<and>
   trace (status_tick api_ok (status_effect api_ok status_page0)) =
     [Call_getOrderById ''o1'', Call_getOrderById ''o1'']"
  unfolding status_effect_page0
  by (simp add: status_tick_def loadOrder_def api_ok_def terminal_def order1_completed_def
      status_page0_def)

lemma trace_loadOrder: "trace (loadOrder api orderId s) = trace s @ [Call_getOrderById orderId]"
  by (simp add: loadOrder_def Let_def split: sum.splits)

lemma interval_loadOrder: "interval (loadOrder api orderId s) = interval s"
  by (simp add: loadOrder_def Let_def split: sum.splits)

lemma detached_ticks:
  "interval s = None \<Longrightarrow> status_ticks apis s = s"
  unfolding status_ticks_def
  by (induction apis) (simp_all add: status_tick_def)

text \<open>
  Claim C3, amended. While the timer is registered every firing issues one refresh,
  whatever the status of the order, terminal or not; the effect issues the first refresh
  and registers the timer; the cleanup of the effect removes the timer, and after it no
  firing issues a refresh.
\<close>

theorem C3_polling:
  "(interval s = Some orderId \<longrightarrow>
      trace (status_tick api s) = trace s @ [Call_getOrderById orderId] \<and>
      interval (status_tick api s) = Some orderId) \<and>
   (orderId_of (status_location_orderId s) (currentOrder s) = Some orderId \<and> orderId \<noteq> [] \<longrightarrow>
      trace (status_effect api s) = trace s @ [Call_getOrderById orderId] \<and>
      interval (status_effect api s) = Some orderId) \<and>
   interval (status_cleanup s) = None \<and>
   trace (status_ticks apis (status_cleanup s)) = trace s"
proof -
  have "status_ticks apis (status_cleanup s) = status_cleanup s"
    by (rule detached_ticks) (simp add: status_cleanup_def)
  then show ?thesis
    by (simp add: status_tick_def status_effect_def trace_loadOrder interval_loadOrder
        status_cleanup_def)
qed

text \<open>The amended claim at the page above, attached and then detached.\<close>

theorem C3_polling_witness:
  "trace (status_tick api_ok (status_effect api_ok status_page0)) =
     [Call_getOrderById ''o1'', Call_getOrderById ''o1''] \<and>
   trace (status_ticks [api_ok, api_down, api_ok]
           (status_cleanup (status_effect api_ok status_page0))) = [Call_getOrderById ''o1'']"
proof -
  have i: "interval (status_effect api_ok status_page0) = Some ''o1''"
    "trace (status_effect api_ok status_page0) = [Call_getOrderById ''o1'']"
    by (simp_all add: status_effect_page0)
  show ?thesis
    using C3_polling[of "status_effect api_ok status_page0" "''o1''" api_ok
        "[api_ok, api_down, api_ok]"] i
    by simp
qed

text \<open>
  Claim C4 says that a step is marked completed if and only if the status of the order is
  strictly later in the sequence. The last step is marked completed when the status is
  \<open>completed\<close>, which is not strictly later than itself.
\<close>

theorem C4_progress_marks_counterexample:
  "Completed \<in> set step_statuses \<and> isCompleted Completed Completed \<and>
   \<not> strictly_later Completed Completed"
  by (simp add: step_statuses_def isCompleted_def strictly_later_def)

text \<open>
  Claim C4, amended. A step is marked completed if and only if the status of the order is
  strictly later in the sequence, or both the step and the status are \<open>completed\<close>. For
  every status but \<open>rejected\<close> exactly one step is marked active, the step of that status;
  for \<open>rejected\<close> no step is marked completed or active.
\<close>

theorem C4_progress_marks:
  "isCompleted st step = (strictly_later st step \<or> (st = Completed \<and> step = Completed)) \<and>
   filter (isActive st) step_statuses = (if st = Rejected then [] else [st]) \<and>
   list_all (\<lambda>step. \<not> isCompleted Rejected step \<and> \<not> isActive Rejected step) step_statuses"
  by (cases st; cases step)
    (simp_all add: isCompleted_def strictly_later_def isActive_def step_statuses_def)

end
